theory Spec2Isabelle
  imports Main "HOL-Library.Multiset"
begin

section \<open>The persisted schema\<close>

text \<open>
  Every variant of the application (\<^verbatim>\<open>final.py\<close>, \<^verbatim>\<open>old.py\<close>, \<^verbatim>\<open>database.py\<close>,
  \<^verbatim>\<open>with_mail.py\<close>) creates the same two tables. A row of \<^verbatim>\<open>tasks\<close> is a record with
  one field per column. The handlers only ever bind Python strings (the values of
  \<^verbatim>\<open>st.text_input\<close>, \<^verbatim>\<open>st.text_area\<close>, \<^verbatim>\<open>st.selectbox\<close> and a rendered date) to the
  text columns, so these are \<open>string\<close>; \<^verbatim>\<open>completed\<close> is only ever written as 0/1 or
  \<^verbatim>\<open>True\<close> and defaults to 0/\<^verbatim>\<open>FALSE\<close>, so it is \<open>bool\<close>. The columns
  \<^verbatim>\<open>created_at\<close> and \<^verbatim>\<open>updated_at\<close> of \<^verbatim>\<open>with_mail.py\<close> hold wall-clock time and are
  left out.
\<close>

record task =
  task_id :: int
  user_id :: int
  title :: string
  description :: string
  due_date :: string
  category :: string
  priority :: string
  completed :: bool

text \<open>
  \<^verbatim>\<open>users(id, username UNIQUE, password, user_type)\<close> in \<^verbatim>\<open>final.py\<close> and \<^verbatim>\<open>old.py\<close>;
  \<^verbatim>\<open>database.py\<close> and \<^verbatim>\<open>with_mail.py\<close> add the column \<^verbatim>\<open>email UNIQUE\<close>.
\<close>

record user =
  uid :: int
  username :: string
  password :: string
  user_type :: string

record mail_user = user +
  email :: string

text \<open>
  The store: both tables as lists in insertion order (\<^verbatim>\<open>INSERT\<close> appends, \<^verbatim>\<open>UPDATE\<close>
  rewrites a row in place, \<^verbatim>\<open>DELETE\<close> removes it), and the next value of each id
  generator (\<^verbatim>\<open>AUTOINCREMENT\<close> in SQLite, \<^verbatim>\<open>SERIAL\<close> in PostgreSQL). The type of a
  user row is a parameter, since it differs between the variants. No query of the source
  has an \<^verbatim>\<open>ORDER BY\<close>: a \<^verbatim>\<open>SELECT\<close> reads the table in this stored order, which is
  what a scan by rowid does in SQLite, and what PostgreSQL does for \<^verbatim>\<open>with_mail.py\<close>, which
  never updates or deletes a task. The state of the database connection after an error
  is not part of the store.
\<close>

record 'u store =
  users :: "'u list"
  tasks :: "task list"
  users_seq :: int
  tasks_seq :: int

definition empty_store :: "'u store" where
  "empty_store = \<lparr>users = [], tasks = [], users_seq = 1, tasks_seq = 1\<rparr>"

datatype py_error = IntegrityError | TypeError | KeyError

datatype notice = St_success string | St_error string

section \<open>Queries on the tasks table\<close>

text \<open>
  A \<^verbatim>\<open>WHERE\<close> clause of the source is a conjunction that the code extends with
  \<^verbatim>\<open>query += " AND ..."\<close> and \<^verbatim>\<open>params.append(...)\<close>. It is a list of conditions, each
  with the parameter bound to it; a row is selected when it satisfies all of them.
\<close>

datatype cond = User_id_eq int | Completed_eq bool | Category_eq string

fun sat :: "task \<Rightarrow> cond \<Rightarrow> bool" where
  "sat t (User_id_eq u) = (user_id t = u)"
| "sat t (Completed_eq b) = (completed t = b)"
| "sat t (Category_eq c) = (category t = c)"

definition fetchall :: "'u store \<Rightarrow> cond list \<Rightarrow> task list" where
  "fetchall db query = filter (\<lambda>t. list_all (sat t) query) (tasks db)"

text \<open>The columns that \<^verbatim>\<open>get_tasks\<close> selects:
  \<^verbatim>\<open>id, title, description, due_date, category, priority, completed\<close>.\<close>

type_synonym task_row = "int \<times> string \<times> string \<times> string \<times> string \<times> string \<times> bool"

definition row :: "task \<Rightarrow> task_row" where
  "row t = (task_id t, title t, description t, due_date t, category t, priority t, completed t)"

definition row_id :: "task_row \<Rightarrow> int" where
  "row_id r = fst r"

definition row_category :: "task_row \<Rightarrow> string" where
  "row_category r = (case r of (i, ttl, descr, due, cat, prio, done) \<Rightarrow> cat)"

text \<open>
  \<^verbatim>\<open>get_tasks(user_id, filter_by=None, category=None)\<close> of \<^verbatim>\<open>final.py\<close>, \<^verbatim>\<open>old.py\<close> and
  \<^verbatim>\<open>database.py\<close> (the three differ only in the placeholder syntax). \<^verbatim>\<open>if category:\<close>
  is Python truthiness: \<^verbatim>\<open>None\<close> and the empty string add no condition.
\<close>

definition get_tasks :: "'u store \<Rightarrow> int \<Rightarrow> string option \<Rightarrow> string option \<Rightarrow> task_row list" where
  "get_tasks db u filter_by cat =
     (let query = [User_id_eq u];
          query = (if filter_by = Some ''completed'' then query @ [Completed_eq True]
                   else if filter_by = Some ''uncompleted'' then query @ [Completed_eq False]
                   else query);
          query = (case cat of
                     None \<Rightarrow> query
                   | Some c \<Rightarrow> if c \<noteq> [] then query @ [Category_eq c] else query)
      in map row (fetchall db query))"

section \<open>Data access of \<^verbatim>\<open>final.py\<close> and \<^verbatim>\<open>old.py\<close> (SQLite)\<close>

text \<open>
  Each function runs one statement and commits. SQLite does not enforce the foreign key
  of \<^verbatim>\<open>tasks.user_id\<close> (the source never switches it on), so \<^verbatim>\<open>add_task\<close> cannot fail.
  The new row takes the next id and the column default \<^verbatim>\<open>completed = 0\<close>.
\<close>

definition add_task :: "'u store \<Rightarrow> int \<Rightarrow> string \<Rightarrow> string \<Rightarrow> string \<Rightarrow> string \<Rightarrow> string \<Rightarrow> 'u store" where
  "add_task db u ttl descr due cat prio =
     db\<lparr>tasks := tasks db @
            [\<lparr>task_id = tasks_seq db, user_id = u, title = ttl, description = descr,
              due_date = due, category = cat, priority = prio, completed = False\<rparr>],
        tasks_seq := tasks_seq db + 1\<rparr>"

definition update_task_status :: "'u store \<Rightarrow> int \<Rightarrow> bool \<Rightarrow> 'u store" where
  "update_task_status db tid status =
     db\<lparr>tasks := map (\<lambda>t. if task_id t = tid then t\<lparr>completed := status\<rparr> else t) (tasks db)\<rparr>"

definition update_task :: "'u store \<Rightarrow> int \<Rightarrow> string \<Rightarrow> string \<Rightarrow> string \<Rightarrow> string \<Rightarrow> string \<Rightarrow> 'u store" where
  "update_task db tid ttl descr due cat prio =
     db\<lparr>tasks := map (\<lambda>t. if task_id t = tid
                           then t\<lparr>title := ttl, description := descr, due_date := due,
                                  category := cat, priority := prio\<rparr>
                           else t) (tasks db)\<rparr>"

definition delete_task :: "'u store \<Rightarrow> int \<Rightarrow> 'u store" where
  "delete_task db tid = db\<lparr>tasks := filter (\<lambda>t. task_id t \<noteq> tid) (tasks db)\<rparr>"

definition get_task_count :: "'u store \<Rightarrow> int \<Rightarrow> nat" where
  "get_task_count db u = length (fetchall db [User_id_eq u])"

text \<open>\<^verbatim>\<open>c.fetchone()\<close>: the first row of the result, or \<^verbatim>\<open>None\<close>.\<close>

definition fetchone :: "'a list \<Rightarrow> 'a option" where
  "fetchone rows = (case rows of [] \<Rightarrow> None | r # _ \<Rightarrow> Some r)"

subsection \<open>Signup and login\<close>

text \<open>
  \<^verbatim>\<open>INSERT INTO users (username, password, user_type)\<close> against \<^verbatim>\<open>username UNIQUE\<close>:
  SQLite raises \<^verbatim>\<open>IntegrityError\<close> and writes nothing when the name is taken.
\<close>

definition insert_user :: "user store \<Rightarrow> string \<Rightarrow> string \<Rightarrow> string \<Rightarrow> py_error + user store" where
  "insert_user db un pw ut =
     (if un \<in> set (map username (users db)) then Inl IntegrityError
      else Inr (db\<lparr>users := users db @
                       [\<lparr>uid = users_seq db, username = un, password = pw, user_type = ut\<rparr>],
                    users_seq := users_seq db + 1\<rparr>))"

text \<open>\<^verbatim>\<open>signup_page\<close> after the button: \<^verbatim>\<open>except sqlite3.IntegrityError\<close> catches that one
  exception; any other would leave the handler.\<close>

definition signup_page :: "user store \<Rightarrow> string \<Rightarrow> string \<Rightarrow> string \<Rightarrow> (py_error + notice) \<times> user store" where
  "signup_page db un pw ut =
     (case insert_user db un pw ut of
        Inr db' \<Rightarrow> (Inr (St_success ''Account created successfully. Please log in.''), db')
      | Inl IntegrityError \<Rightarrow> (Inr (St_error ''Username already exists.''), db)
      | Inl e \<Rightarrow> (Inl e, db))"

record session =
  logged_in :: bool
  session_user_id :: "int option"
  session_user_type :: "string option"

text \<open>\<^verbatim>\<open>login_page\<close> after the button, the same in \<^verbatim>\<open>final.py\<close>, \<^verbatim>\<open>old.py\<close> and
  \<^verbatim>\<open>database.py\<close>: the password is compared as stored.\<close>

definition login_page :: "'a user_scheme store \<Rightarrow> session \<Rightarrow> string \<Rightarrow> string \<Rightarrow> notice \<times> session" where
  "login_page db st un pw =
     (case fetchone (filter (\<lambda>r. username r = un \<and> password r = pw) (users db)) of
        Some r \<Rightarrow> (St_success (''Welcome, '' @ un @ ''!''),
                   st\<lparr>logged_in := True, session_user_id := Some (uid r),
                      session_user_type := Some (user_type r)\<rparr>)
      | None \<Rightarrow> (St_error ''Invalid credentials. Please try again.'', st))"

section \<open>Data access of \<^verbatim>\<open>database.py\<close> (PostgreSQL, with mail)\<close>

text \<open>
  The mail transport is outside the program: \<open>smtp to subject body\<close> is \<open>None\<close> when
  the message is delivered and \<open>Some e\<close> when anything inside the \<^verbatim>\<open>try\<close> block of
  \<^verbatim>\<open>send_email\<close> raises an exception whose text is \<open>e\<close>. \<^verbatim>\<open>send_email\<close> catches every
  exception and reports it with \<^verbatim>\<open>st.error\<close>.
\<close>

type_synonym smtp = "string \<Rightarrow> string \<Rightarrow> string \<Rightarrow> string option"

definition send_email :: "smtp \<Rightarrow> string \<Rightarrow> string \<Rightarrow> string \<Rightarrow> notice list" where
  "send_email server to_email subject body =
     (case server to_email subject body of
        None \<Rightarrow> []
      | Some e \<Rightarrow> [St_error (''Error sending email: '' @ e)])"

definition quoted :: "string \<Rightarrow> string" where
  "quoted s = [CHR 0x27] @ s @ [CHR 0x27]"

text \<open>\<^verbatim>\<open>SELECT email FROM users WHERE id = %s\<close> followed by \<^verbatim>\<open>c.fetchone()\<close>.\<close>

definition select_email :: "mail_user store \<Rightarrow> int \<Rightarrow> string option" where
  "select_email db u = fetchone (map email (filter (\<lambda>r. uid r = u) (users db)))"

text \<open>
  \<^verbatim>\<open>INSERT INTO tasks\<close> on PostgreSQL: the foreign key is enforced, so a \<^verbatim>\<open>user_id\<close> with
  no row in \<^verbatim>\<open>users\<close> raises \<^verbatim>\<open>IntegrityError\<close>. The \<^verbatim>\<open>SERIAL\<close> sequence advances at every
  attempt, also a rejected one.
\<close>

definition insert_task_pg :: "mail_user store \<Rightarrow> int \<Rightarrow> string \<Rightarrow> string \<Rightarrow> string \<Rightarrow> string \<Rightarrow> string
    \<Rightarrow> (py_error + unit) \<times> mail_user store" where
  "insert_task_pg db u ttl descr due cat prio =
     (if u \<in> set (map uid (users db))
      then (Inr (), add_task db u ttl descr due cat prio)
      else (Inl IntegrityError, db\<lparr>tasks_seq := tasks_seq db + 1\<rparr>))"

definition add_task_pg :: "smtp \<Rightarrow> mail_user store \<Rightarrow> int \<Rightarrow> string \<Rightarrow> string \<Rightarrow> string \<Rightarrow> string \<Rightarrow> string
    \<Rightarrow> (py_error + notice list) \<times> mail_user store" where
  "add_task_pg server db u ttl descr due cat prio =
     (case insert_task_pg db u ttl descr due cat prio of
        (Inl e, db') \<Rightarrow> (Inl e, db')
      | (Inr _, db') \<Rightarrow>
          (case select_email db' u of
             None \<Rightarrow> (Inl TypeError, db')
           | Some user_email \<Rightarrow>
               (Inr (send_email server user_email ''New Task Added''
                       (''Task '' @ quoted ttl @ '' has been added.'')), db')))"

definition update_task_status_pg :: "smtp \<Rightarrow> mail_user store \<Rightarrow> int \<Rightarrow> bool
    \<Rightarrow> (py_error + notice list) \<times> mail_user store" where
  "update_task_status_pg server db tid status =
     (let db' = update_task_status db tid status in
      case fetchone (filter (\<lambda>t. task_id t = tid) (tasks db')) of
        None \<Rightarrow> (Inl TypeError, db')
      | Some t \<Rightarrow>
          (case select_email db' (user_id t) of
             None \<Rightarrow> (Inl TypeError, db')
           | Some user_email \<Rightarrow>
               (let status_text = (if status then ''completed'' else ''marked as incomplete'')
                in (Inr (send_email server user_email ''Task Status Updated''
                           (''Task '' @ quoted (title t) @ '' has been '' @ status_text @ ''.'')),
                    db'))))"

definition delete_task_pg :: "smtp \<Rightarrow> mail_user store \<Rightarrow> int
    \<Rightarrow> (py_error + notice list) \<times> mail_user store" where
  "delete_task_pg server db tid =
     (case fetchone (filter (\<lambda>t. task_id t = tid) (tasks db)) of
        None \<Rightarrow> (Inl TypeError, db)
      | Some t \<Rightarrow>
          (let db' = delete_task db tid in
           case select_email db' (user_id t) of
             None \<Rightarrow> (Inl TypeError, db')
           | Some user_email \<Rightarrow>
               (Inr (send_email server user_email ''Task Deleted''
                       (''Task '' @ quoted (title t) @ '' has been deleted.'')), db')))"

text \<open>\<^verbatim>\<open>INSERT INTO users (username, email, password, user_type)\<close> against
  \<^verbatim>\<open>username UNIQUE\<close> and \<^verbatim>\<open>email UNIQUE\<close>.\<close>

definition insert_user_pg :: "mail_user store \<Rightarrow> string \<Rightarrow> string \<Rightarrow> string \<Rightarrow> string
    \<Rightarrow> (py_error + unit) \<times> mail_user store" where
  "insert_user_pg db un em pw ut =
     (if un \<in> set (map username (users db)) \<or> em \<in> set (map email (users db))
      then (Inl IntegrityError, db\<lparr>users_seq := users_seq db + 1\<rparr>)
      else (Inr (), db\<lparr>users := users db @
                         [\<lparr>uid = users_seq db, username = un, password = pw, user_type = ut,
                           email = em\<rparr>],
                       users_seq := users_seq db + 1\<rparr>))"

definition signup_page_pg :: "smtp \<Rightarrow> mail_user store \<Rightarrow> string \<Rightarrow> string \<Rightarrow> string \<Rightarrow> string
    \<Rightarrow> (py_error + notice list) \<times> mail_user store" where
  "signup_page_pg server db un em pw ut =
     (case insert_user_pg db un em pw ut of
        (Inr _, db') \<Rightarrow>
          (Inr (send_email server em ''Welcome to Task Manager''
                  ''Your account has been created successfully!''
                @ [St_success ''Account created successfully. Please log in.'']), db')
      | (Inl IntegrityError, db') \<Rightarrow> (Inr [St_error ''Username or Email already exists.''], db')
      | (Inl e, db') \<Rightarrow> (Inl e, db'))"

text \<open>
  The "Add a Task" tab of \<^verbatim>\<open>task_dashboard\<close> in \<^verbatim>\<open>database.py\<close>, after the button.
  The handler has the user's type at hand and does not look at it.
\<close>

definition task_dashboard_add_pg :: "smtp \<Rightarrow> mail_user store \<Rightarrow> int \<Rightarrow> string
    \<Rightarrow> string \<Rightarrow> string \<Rightarrow> string \<Rightarrow> string \<Rightarrow> string
    \<Rightarrow> (py_error + notice list) \<times> mail_user store" where
  "task_dashboard_add_pg server db u ut ttl descr due cat prio =
     (case add_task_pg server db u ttl descr due cat prio of
        (Inl e, db') \<Rightarrow> (Inl e, db')
      | (Inr ns, db') \<Rightarrow> (Inr (ns @ [St_success ''Task added successfully!'']), db'))"

section \<open>The dashboard of \<^verbatim>\<open>with_mail.py\<close>\<close>

text \<open>\<^verbatim>\<open>TASK_LIMIT\<close>: a dictionary from the user type to the limit, \<^verbatim>\<open>float('inf')\<close> for
  Premium.\<close>

datatype limit = Finite nat | Inf

definition TASK_LIMIT :: "string \<rightharpoonup> limit" where
  "TASK_LIMIT = [''Regular'' \<mapsto> Finite 10, ''Premium'' \<mapsto> Inf, ''Restricted'' \<mapsto> Finite 5]"

text \<open>\<^verbatim>\<open>current_task_count >= task_limit\<close>; no count reaches infinity.\<close>

fun limit_reached :: "nat \<Rightarrow> limit \<Rightarrow> bool" where
  "limit_reached n (Finite l) = (l \<le> n)"
| "limit_reached n Inf = False"

fun str_nat :: "nat \<Rightarrow> string" where
  "str_nat n = (if n < 10 then [''0123456789'' ! n]
                else str_nat (n div 10) @ [''0123456789'' ! (n mod 10)])"

declare str_nat.simps [simp del]

fun str_limit :: "limit \<Rightarrow> string" where
  "str_limit (Finite l) = str_nat l"
| "str_limit Inf = ''inf''"


text \<open>
  The "Add Task" tab, after the button. \<^verbatim>\<open>TASK_LIMIT[user_type]\<close> raises \<^verbatim>\<open>KeyError\<close> for
  an unknown type; the count is read before the tab is drawn.
\<close>

definition task_dashboard_add_wm :: "smtp \<Rightarrow> mail_user store \<Rightarrow> int \<Rightarrow> string \<Rightarrow> string
    \<Rightarrow> string \<Rightarrow> string \<Rightarrow> string \<Rightarrow> string \<Rightarrow> string
    \<Rightarrow> (py_error + notice list) \<times> mail_user store" where
  "task_dashboard_add_wm server db u user_email ut ttl descr due cat prio =
     (case TASK_LIMIT ut of
        None \<Rightarrow> (Inl KeyError, db)
      | Some task_limit \<Rightarrow>
          (let current_task_count = get_task_count db u in
           if limit_reached current_task_count task_limit
           then (Inr [St_error (''Task limit of '' @ str_limit task_limit
                                @ '' reached. Upgrade to add more tasks.'')], db)
           else (case insert_task_pg db u ttl descr due cat prio of
                   (Inl e, db') \<Rightarrow> (Inl e, db')
                 | (Inr _, db') \<Rightarrow>
                     (Inr (send_email server user_email ''New Task Added''
                             (''Your task '' @ quoted ttl @ '' was added successfully.'')
                           @ [St_success ''Task added successfully!'']), db'))))"

section \<open>Primary keys\<close>

text \<open>
  Ids are handed out in increasing order and never reused, so in every store the
  application can build the ids of the tasks table increase along the table and stay
  below the generator.
\<close>

definition task_ids_ok :: "'u store \<Rightarrow> bool" where
  "task_ids_ok db \<longleftrightarrow>
     sorted_wrt (<) (map task_id (tasks db))
     \<and> list_all (\<lambda>i. i < tasks_seq db) (map task_id (tasks db))"

section \<open>The listing contract\<close>








section \<open>Example stores\<close>

definition work_task :: task where
  "work_task = \<lparr>task_id = 1, user_id = 1, title = ''Submit Report'', description = ''annual report'',
     due_date = ''2024-12-10'', category = ''Work'', priority = ''High'', completed = True\<rparr>"

definition blank_task :: task where
  "blank_task = \<lparr>task_id = 2, user_id = 1, title = ''Doctor Appointment'', description = '''',
     due_date = ''2024-11-25'', category = '''', priority = ''Low'', completed = False\<rparr>"

definition other_task :: task where
  "other_task = \<lparr>task_id = 3, user_id = 2, title = ''Project Deadline'', description = '''',
     due_date = ''2024-12-15'', category = ''Work'', priority = ''Med'', completed = False\<rparr>"

text \<open>A store of \<^verbatim>\<open>final.py\<close>: two users, three tasks.\<close>

definition small_store :: "user store" where
  "small_store =
     \<lparr>users = [\<lparr>uid = 1, username = ''alice'', password = ''pw1'', user_type = ''Regular''\<rparr>,
               \<lparr>uid = 2, username = ''bob'', password = ''pw2'', user_type = ''Premium''\<rparr>],
      tasks = [work_task, blank_task, other_task], users_seq = 3, tasks_seq = 4\<rparr>"

text \<open>A store of \<^verbatim>\<open>database.py\<close> and \<^verbatim>\<open>with_mail.py\<close>: the Regular user alice with ten
  tasks, the case of the specification's own example.\<close>

definition alice :: mail_user where
  "alice = \<lparr>uid = 1, username = ''alice'', password = ''pw1'', user_type = ''Regular'',
            email = ''alice@example.org''\<rparr>"

definition alice_task :: "int \<Rightarrow> task" where
  "alice_task i = \<lparr>task_id = i, user_id = 1, title = ''chore'', description = '''',
     due_date = ''2024-12-10'', category = ''Home'', priority = ''Low'', completed = False\<rparr>"

definition alice_store :: "mail_user store" where
  "alice_store = \<lparr>users = [alice], tasks = map alice_task [1, 2, 3, 4, 5, 6, 7, 8, 9, 10],
                   users_seq = 2, tasks_seq = 11\<rparr>"

text \<open>A transport that delivers every message and one that always fails.\<close>

definition delivering :: smtp where
  "delivering to_email subject body = None"

definition refusing :: smtp where
  "refusing to_email subject body = Some ''Connection refused''"

definition logged_out :: session where
  "logged_out = \<lparr>logged_in = False, session_user_id = None, session_user_type = None\<rparr>"

section \<open>What the queries select\<close>

lemma get_tasks_filter:
  "get_tasks db u fb cat =
     map row (filter (\<lambda>t. user_id t = u
                \<and> (fb = Some ''completed'' \<longrightarrow> completed t)
                \<and> (fb = Some ''uncompleted'' \<longrightarrow> \<not> completed t)
                \<and> (case cat of None \<Rightarrow> True | Some c \<Rightarrow> c = [] \<or> category t = c)) (tasks db))"
  by (cases cat)
    (auto simp: get_tasks_def fetchall_def Let_def intro!: filter_cong arg_cong [where f = "map row"])


lemma mset_filter_split:
  "mset (map f (filter (\<lambda>t. P t \<and> Q t) xs)) + mset (map f (filter (\<lambda>t. P t \<and> \<not> Q t) xs))
     = mset (map f (filter P xs))"
  by (induction xs) auto


lemma get_tasks_empty_category: "get_tasks db u fb (Some []) = get_tasks db u fb None"
  by (simp add: get_tasks_def)


lemma get_tasks_row_ids: "row_id ` set (get_tasks db u fb cat) \<subseteq> task_id ` set (tasks db)"
  by (auto simp: get_tasks_filter row_id_def row_def)

lemma get_task_count_add_task:
  "get_task_count (add_task db u ttl descr due cat prio) u = Suc (get_task_count db u)"
  by (simp add: get_task_count_def fetchall_def add_task_def)

section \<open>Primary keys are kept\<close>

lemma task_ids_distinct: "task_ids_ok db \<Longrightarrow> distinct (map task_id (tasks db))"
  by (simp add: task_ids_ok_def strict_sorted_iff)

lemma task_id_inj:
  "distinct (map task_id xs) \<Longrightarrow> t \<in> set xs \<Longrightarrow> x \<in> set xs \<Longrightarrow> task_id x = task_id t \<Longrightarrow> x = t"
  by (meson distinct_map inj_onD)

lemma filter_neq_remove1:
  "distinct (map task_id xs) \<Longrightarrow> t \<in> set xs \<Longrightarrow>
     filter (\<lambda>x. task_id x \<noteq> task_id t) xs = remove1 t xs"
proof (induction xs)
  case Nil
  then show ?case by simp
next
  case (Cons a xs)
  show ?case
  proof (cases "a = t")
    case True
    with Cons.prems have "\<forall>x\<in>set xs. task_id x \<noteq> task_id t" by (auto simp: image_iff)
    then have "filter (\<lambda>x. task_id x \<noteq> task_id t) xs = xs" by (simp add: filter_id_conv)
    with True show ?thesis by simp
  next
    case False
    with Cons.prems have ne: "task_id a \<noteq> task_id t" and "t \<in> set xs" by auto
    with Cons show ?thesis using False by simp
  qed
qed

lemma task_ids_ok_cong:
  "map task_id (tasks db') = map task_id (tasks db) \<Longrightarrow> tasks_seq db' = tasks_seq db \<Longrightarrow>
     task_ids_ok db' = task_ids_ok db"
  by (simp add: task_ids_ok_def)

lemma update_task_status_ids:
  "map task_id (tasks (update_task_status db tid s)) = map task_id (tasks db)"
  by (induction "tasks db" arbitrary: db) (auto simp: update_task_status_def)

lemma update_task_ids:
  "map task_id (tasks (update_task db tid ttl descr due cat prio)) = map task_id (tasks db)"
  by (auto simp: update_task_def)

text \<open>The empty store has the invariant, and every write of the application keeps it.\<close>

lemma empty_store_ids_ok: "task_ids_ok empty_store"
  by (simp add: task_ids_ok_def empty_store_def)

lemma add_task_ids_ok: "task_ids_ok db \<Longrightarrow> task_ids_ok (add_task db u ttl descr due cat prio)"
  by (auto simp: task_ids_ok_def add_task_def sorted_wrt_append list_all_iff)

lemma update_task_status_ids_ok: "task_ids_ok db \<Longrightarrow> task_ids_ok (update_task_status db tid s)"
  using task_ids_ok_cong [of "update_task_status db tid s" db]
  by (simp add: update_task_status_ids) (simp add: update_task_status_def)

lemma update_task_ids_ok:
  "task_ids_ok db \<Longrightarrow> task_ids_ok (update_task db tid ttl descr due cat prio)"
  using task_ids_ok_cong [of "update_task db tid ttl descr due cat prio" db]
  by (simp add: update_task_ids) (simp add: update_task_def)

lemma delete_task_ids_ok: "task_ids_ok db \<Longrightarrow> task_ids_ok (delete_task db tid)"
  by (auto simp: task_ids_ok_def delete_task_def list_all_iff sorted_wrt_map sorted_wrt_filter)

lemma insert_task_pg_ids_ok:
  "task_ids_ok db \<Longrightarrow> task_ids_ok (snd (insert_task_pg db u ttl descr due cat prio))"
  using add_task_ids_ok [of db u ttl descr due cat prio]
  by (auto simp: insert_task_pg_def task_ids_ok_def list_all_iff)


section \<open>Writes that leave another user's rows alone\<close>

lemma filter_user_update:
  assumes "\<And>x. user_id (f x) = user_id x"
    and "\<forall>x\<in>set xs. task_id x = tid \<longrightarrow> user_id x \<noteq> v"
  shows "filter (\<lambda>x. user_id x = v \<and> P x) (map (\<lambda>x. if task_id x = tid then f x else x) xs)
           = filter (\<lambda>x. user_id x = v \<and> P x) xs"
  using assms(2)
proof (induction xs)
  case Nil
  then show ?case by simp
next
  case (Cons a xs)
  then have ih: "filter (\<lambda>x. user_id x = v \<and> P x)
                   (map (\<lambda>x. if task_id x = tid then f x else x) xs)
                 = filter (\<lambda>x. user_id x = v \<and> P x) xs"
    by simp
  show ?case
  proof (cases "task_id a = tid")
    case True
    with Cons.prems have "user_id a \<noteq> v" by simp
    with True ih show ?thesis by (simp add: assms(1))
  next
    case False
    with ih show ?thesis by simp
  qed
qed

lemma filter_user_delete:
  assumes "\<forall>x\<in>set xs. task_id x = tid \<longrightarrow> user_id x \<noteq> v"
  shows "filter (\<lambda>x. user_id x = v \<and> P x) (filter (\<lambda>x. task_id x \<noteq> tid) xs)
           = filter (\<lambda>x. user_id x = v \<and> P x) xs"
  using assms by (induction xs) auto

lemma owner_of_id:
  assumes "task_ids_ok db" "t \<in> set (tasks db)" "task_id t = tid" "user_id t = u" "u \<noteq> v"
  shows "\<forall>x\<in>set (tasks db). task_id x = tid \<longrightarrow> user_id x \<noteq> v"
proof (intro ballI impI)
  fix x assume "x \<in> set (tasks db)" "task_id x = tid"
  then have "x = t"
    using task_id_inj [OF task_ids_distinct [OF assms(1)] assms(2), of x] assms(3) by simp
  with assms show "user_id x \<noteq> v" by simp
qed

section \<open>The store after the mail-enabled functions\<close>

text \<open>
  What \<^verbatim>\<open>database.py\<close> and \<^verbatim>\<open>with_mail.py\<close> leave in the store does not mention the
  transport: every statement is committed before \<^verbatim>\<open>send_email\<close> is called.
\<close>

lemma add_task_pg_store:
  "snd (add_task_pg server db u ttl descr due cat prio)
     = snd (insert_task_pg db u ttl descr due cat prio)"
  by (simp add: add_task_pg_def split: prod.splits sum.splits option.splits)

lemma update_task_status_pg_store:
  "snd (update_task_status_pg server db tid s) = update_task_status db tid s"
  by (simp add: update_task_status_pg_def Let_def split: option.splits)

lemma delete_task_pg_store: "snd (delete_task_pg server db tid) = delete_task db tid"
proof (cases "fetchone (filter (\<lambda>t. task_id t = tid) (tasks db))")
  case None
  then have "filter (\<lambda>t. task_id t = tid) (tasks db) = []"
    by (simp add: fetchone_def split: list.splits)
  then have "filter (\<lambda>t. task_id t \<noteq> tid) (tasks db) = tasks db"
    by (simp add: filter_empty_conv filter_id_conv)
  with None show ?thesis by (simp add: delete_task_pg_def delete_task_def)
next
  case (Some t)
  then show ?thesis by (simp add: delete_task_pg_def Let_def split: option.splits)
qed

lemma signup_page_pg_store:
  "snd (signup_page_pg server db un em pw ut) = snd (insert_user_pg db un em pw ut)"
  by (simp add: signup_page_pg_def split: prod.splits sum.splits py_error.splits)

lemma task_dashboard_add_pg_store:
  "snd (task_dashboard_add_pg server db u ut ttl descr due cat prio)
     = snd (insert_task_pg db u ttl descr due cat prio)"
  using add_task_pg_store [of server db u ttl descr due cat prio]
  by (auto simp: task_dashboard_add_pg_def split: prod.splits sum.splits)

lemma task_dashboard_add_wm_store:
  "snd (task_dashboard_add_wm server db u em ut ttl descr due cat prio)
     = (case TASK_LIMIT ut of
          None \<Rightarrow> db
        | Some l \<Rightarrow> if limit_reached (get_task_count db u) l then db
                    else snd (insert_task_pg db u ttl descr due cat prio))"
  by (simp add: task_dashboard_add_wm_def Let_def split: option.splits prod.splits sum.splits)

section \<open>Status toggles and signup followed by login\<close>

lemma update_task_status_twice:
  "update_task_status (update_task_status db tid a) tid b = update_task_status db tid b"
proof -
  have "map (\<lambda>t. if task_id t = tid then t\<lparr>completed := b\<rparr> else t)
          (map (\<lambda>t. if task_id t = tid then t\<lparr>completed := a\<rparr> else t) xs)
        = map (\<lambda>t. if task_id t = tid then t\<lparr>completed := b\<rparr> else t) xs" for xs
    by (induction xs) auto
  then show ?thesis by (simp add: update_task_status_def)
qed

lemma update_task_status_same:
  assumes "\<forall>x\<in>set (tasks db). task_id x = tid \<longrightarrow> completed x = s"
  shows "update_task_status db tid s = db"
proof -
  have "map (\<lambda>t. if task_id t = tid then t\<lparr>completed := s\<rparr> else t) (tasks db) = tasks db"
    using assms by (induction "tasks db") (auto intro!: map_idI)
  then show ?thesis by (simp add: update_task_status_def)
qed

lemma login_after_insert:
  assumes "un \<notin> set (map username (users db))" and "username r = un" and "password r = pw"
  shows "login_page (db\<lparr>users := users db @ [r], users_seq := n\<rparr>) st un pw
           = (St_success (''Welcome, '' @ un @ ''!''),
              st\<lparr>logged_in := True, session_user_id := Some (uid r),
                 session_user_type := Some (user_type r)\<rparr>)"
proof -
  have "filter (\<lambda>r. username r = un \<and> password r = pw) (users db) = []"
    using assms(1) by (auto simp: filter_empty_conv)
  then show ?thesis using assms(2,3) by (simp add: login_page_def fetchone_def)
qed

section \<open>The task limit in the three dashboards\<close>

lemma TASK_LIMIT_values:
  "TASK_LIMIT ''Regular'' = Some (Finite 10)" "TASK_LIMIT ''Restricted'' = Some (Finite 5)"
  "TASK_LIMIT ''Premium'' = Some Inf"
  by (simp_all add: TASK_LIMIT_def)

text \<open>\<^verbatim>\<open>with_mail.py\<close> refuses the request at the limit and leaves the store as it is.\<close>

lemma task_dashboard_add_wm_at_limit:
  "TASK_LIMIT ut = Some (Finite l) \<Longrightarrow> l \<le> get_task_count db u \<Longrightarrow>
     task_dashboard_add_wm server db u em ut ttl descr due cat prio
       = (Inr [St_error (''Task limit of '' @ str_nat l @ '' reached. Upgrade to add more tasks.'')],
          db)"
  by (simp add: task_dashboard_add_wm_def)

text \<open>\<^verbatim>\<open>database.py\<close> adds a row for every existing user, whatever the type and count.\<close>

lemma task_dashboard_add_pg_count:
  "u \<in> set (map uid (users db)) \<Longrightarrow>
     get_task_count (snd (task_dashboard_add_pg server db u ut ttl descr due cat prio)) u
       = Suc (get_task_count db u)"
  by (simp add: task_dashboard_add_pg_store insert_task_pg_def get_task_count_add_task)

lemma alice_count: "get_task_count alice_store 1 = 10"
  by (simp add: get_task_count_def fetchall_def alice_store_def alice_task_def)

lemma alice_refused_by_with_mail:
  "task_dashboard_add_wm delivering alice_store 1 ''alice@example.org'' ''Regular''
      ''eleventh'' '''' ''2024-12-24'' ''Home'' ''Low''
     = (Inr [St_error ''Task limit of 10 reached. Upgrade to add more tasks.''], alice_store)"
  using task_dashboard_add_wm_at_limit [OF TASK_LIMIT_values(1), of alice_store 1] alice_count
  by (simp add: str_nat.simps)

lemma small_store_ids_ok: "task_ids_ok small_store"
  by (simp add: task_ids_ok_def small_store_def work_task_def blank_task_def other_task_def)

section \<open>Task limits (C1)\<close>

text \<open>
  Claim C1. A user whose task count has reached the limit of the tier has every request
  to create a task rejected, and the count stays. The "Add a Task" tab of
  \<^verbatim>\<open>database.py\<close> does not do this: for the Regular user alice, who holds ten tasks, it
  inserts the eleventh and reports success, although the sidebar of the same dashboard
  announces that the limit of ten is reached. The other dashboards refuse the same
  request (\<open>alice_refused_by_with_mail\<close>).
\<close>

theorem database_add_ignores_task_limit:
  "user_type alice = ''Regular'' \<and> get_task_count alice_store 1 = 10
   \<and> TASK_LIMIT ''Regular'' = Some (Finite 10)
   \<and> fst (task_dashboard_add_pg delivering alice_store 1 ''Regular''
            ''eleventh'' '''' ''2024-12-24'' ''Home'' ''Low'')
       = Inr [St_success ''Task added successfully!'']
   \<and> get_task_count (snd (task_dashboard_add_pg delivering alice_store 1 ''Regular''
            ''eleventh'' '''' ''2024-12-24'' ''Home'' ''Low'')) 1 = 11"
proof -
  have u: "1 \<in> set (map uid (users alice_store))" by (simp add: alice_store_def alice_def)
  have e: "select_email (add_task alice_store 1 ttl descr due cat prio) 1 = Some ''alice@example.org''"
    for ttl descr due cat prio
    by (simp add: select_email_def fetchone_def add_task_def alice_store_def alice_def)
  have f: "fst (task_dashboard_add_pg delivering alice_store 1 ''Regular''
            ''eleventh'' '''' ''2024-12-24'' ''Home'' ''Low'')
       = Inr [St_success ''Task added successfully!'']"
    using u e by (simp add: task_dashboard_add_pg_def add_task_pg_def insert_task_pg_def
        send_email_def delivering_def)
  show ?thesis
    using task_dashboard_add_pg_count [OF u, of delivering "''Regular''"] f alice_count
    by (simp add: alice_def TASK_LIMIT_values)
qed

section \<open>Setting the status twice (C2)\<close>

text \<open>
  Claim C2, as amended. For every existing task id, \<^verbatim>\<open>update_task_status(id, True)\<close>
  followed by \<^verbatim>\<open>update_task_status(id, False)\<close> leaves the task with
  \<^verbatim>\<open>completed = False\<close> and changes no other field of it, no other task and no user; this
  is the original store exactly when the task was uncompleted before. The same holds for
  \<^verbatim>\<open>database.py\<close>, whatever happens to the two notifications.
\<close>

theorem set_status_true_then_false:
  assumes t: "t \<in> set (tasks db)" and tid: "task_id t = tid"
  shows "update_task_status (update_task_status db tid True) tid False
           = db\<lparr>tasks := map (\<lambda>x. if task_id x = tid then x\<lparr>completed := False\<rparr> else x)
                            (tasks db)\<rparr>
    \<and> (task_ids_ok db \<and> \<not> completed t \<longrightarrow>
          update_task_status (update_task_status db tid True) tid False = db)
    \<and> snd (update_task_status_pg server' (snd (update_task_status_pg server dbm tid True)) tid False)
        = dbm\<lparr>tasks := map (\<lambda>x. if task_id x = tid then x\<lparr>completed := False\<rparr> else x)
                             (tasks dbm)\<rparr>"
proof -
  have 1: "update_task_status (update_task_status db tid True) tid False
           = db\<lparr>tasks := map (\<lambda>x. if task_id x = tid then x\<lparr>completed := False\<rparr> else x)
                            (tasks db)\<rparr>"
    by (simp only: update_task_status_twice) (simp add: update_task_status_def)
  have 2: "update_task_status (update_task_status db tid True) tid False = db"
    if ok: "task_ids_ok db" and n: "\<not> completed t"
  proof -
    have "\<forall>x\<in>set (tasks db). task_id x = tid \<longrightarrow> completed x = False"
    proof (intro ballI impI)
      fix x assume "x \<in> set (tasks db)" "task_id x = tid"
      then have "x = t"
        using task_id_inj [OF task_ids_distinct [OF ok] t, of x] tid by simp
      with n show "completed x = False" by simp
    qed
    then show ?thesis by (simp only: update_task_status_twice update_task_status_same)
  qed
  have 3: "snd (update_task_status_pg server' (snd (update_task_status_pg server dbm tid True))
                  tid False)
        = dbm\<lparr>tasks := map (\<lambda>x. if task_id x = tid then x\<lparr>completed := False\<rparr> else x)
                             (tasks dbm)\<rparr>"
    by (simp only: update_task_status_pg_store update_task_status_twice)
      (simp add: update_task_status_def)
  from 1 2 3 show ?thesis by blast
qed

text \<open>An uncompleted task of the example store comes back as it was.\<close>

theorem set_status_true_then_false_witness:
  "blank_task \<in> set (tasks small_store) \<and> task_id blank_task = 2
   \<and> task_ids_ok small_store \<and> \<not> completed blank_task
   \<and> update_task_status (update_task_status small_store 2 True) 2 False = small_store"
proof -
  have a: "blank_task \<in> set (tasks small_store)" by (simp add: small_store_def)
  have b: "task_id blank_task = 2" by (simp add: blank_task_def)
  have d: "\<not> completed blank_task" by (simp add: blank_task_def)
  show ?thesis
    using set_status_true_then_false [OF a b, of refusing delivering alice_store]
      a b small_store_ids_ok d by blast
qed

text \<open>The claim as it was stated fails for a task that was completed: the two calls
  leave it uncompleted, not with its original value.\<close>

theorem set_status_loses_completed:
  "work_task \<in> set (tasks small_store) \<and> task_id work_task = 1 \<and> completed work_task
   \<and> tasks (update_task_status (update_task_status small_store 1 True) 1 False)
       = [work_task\<lparr>completed := False\<rparr>, blank_task, other_task]
   \<and> work_task\<lparr>completed := False\<rparr> \<noteq> work_task"
  by (simp add: update_task_status_def small_store_def work_task_def blank_task_def other_task_def)

section \<open>The status filters partition a listing (C3)\<close>

text \<open>
  Claim C3. For every user and every category argument, the rows that \<^verbatim>\<open>get_tasks\<close>
  returns with \<^verbatim>\<open>filter_by = "completed"\<close> and those it returns with
  \<^verbatim>\<open>filter_by = "uncompleted"\<close> make up, row for row, the listing without a status
  filter: the multisets add up, the sets unite to it, and no row is in both.
\<close>

theorem get_tasks_status_partition:
  "mset (get_tasks db u (Some ''completed'') cat) + mset (get_tasks db u (Some ''uncompleted'') cat)
     = mset (get_tasks db u None cat)
   \<and> set (get_tasks db u (Some ''completed'') cat) \<union> set (get_tasks db u (Some ''uncompleted'') cat)
     = set (get_tasks db u None cat)
   \<and> set (get_tasks db u (Some ''completed'') cat) \<inter> set (get_tasks db u (Some ''uncompleted'') cat)
     = {}"
proof -
  let ?P = "\<lambda>t. user_id t = u \<and> (case cat of None \<Rightarrow> True | Some c \<Rightarrow> c = [] \<or> category t = c)"
  have c: "get_tasks db u (Some ''completed'') cat
             = map row (filter (\<lambda>t. ?P t \<and> completed t) (tasks db))"
    unfolding get_tasks_filter by (auto intro!: filter_cong arg_cong [where f = "map row"])
  have n: "get_tasks db u (Some ''uncompleted'') cat
             = map row (filter (\<lambda>t. ?P t \<and> \<not> completed t) (tasks db))"
    unfolding get_tasks_filter by (auto intro!: filter_cong arg_cong [where f = "map row"])
  have a: "get_tasks db u None cat = map row (filter ?P (tasks db))"
    unfolding get_tasks_filter by (auto intro!: filter_cong arg_cong [where f = "map row"])
  have m: "mset (get_tasks db u (Some ''completed'') cat)
             + mset (get_tasks db u (Some ''uncompleted'') cat)
           = mset (get_tasks db u None cat)"
    unfolding c n a by (rule mset_filter_split)
  have un: "set (get_tasks db u (Some ''completed'') cat)
              \<union> set (get_tasks db u (Some ''uncompleted'') cat)
            = set (get_tasks db u None cat)"
    using arg_cong [OF m, of set_mset] by simp
  have d: "set (get_tasks db u (Some ''completed'') cat)
             \<inter> set (get_tasks db u (Some ''uncompleted'') cat) = {}"
    unfolding c n by (auto simp: row_def)
  from m un d show ?thesis by blast
qed

section \<open>Signup with a taken name or address (C4)\<close>

text \<open>
  Claim C4. Signup with a username that is already present (\<^verbatim>\<open>final.py\<close>), or with a
  username or an email address that is already present (\<^verbatim>\<open>database.py\<close>), fails: the
  \<^verbatim>\<open>INSERT\<close> raises \<^verbatim>\<open>IntegrityError\<close>, the page reports it, and no row of the store is
  added or changed. On SQLite the whole store is the same; on PostgreSQL both tables are
  the same.
\<close>

theorem signup_duplicate_rejected:
  "(un \<in> set (map username (users db)) \<longrightarrow>
      insert_user db un pw ut = Inl IntegrityError
      \<and> signup_page db un pw ut = (Inr (St_error ''Username already exists.''), db))
   \<and> (un \<in> set (map username (users dbm)) \<or> em \<in> set (map email (users dbm)) \<longrightarrow>
      fst (insert_user_pg dbm un em pw ut) = Inl IntegrityError
      \<and> fst (signup_page_pg server dbm un em pw ut)
          = Inr [St_error ''Username or Email already exists.'']
      \<and> users (snd (signup_page_pg server dbm un em pw ut)) = users dbm
      \<and> tasks (snd (signup_page_pg server dbm un em pw ut)) = tasks dbm)"
  by (simp add: insert_user_def signup_page_def insert_user_pg_def signup_page_pg_def)

theorem signup_duplicate_rejected_witness:
  "''alice'' \<in> set (map username (users small_store))
   \<and> signup_page small_store ''alice'' ''other'' ''Premium''
       = (Inr (St_error ''Username already exists.''), small_store)
   \<and> ''alice@example.org'' \<in> set (map email (users alice_store))
   \<and> fst (signup_page_pg refusing alice_store ''carol'' ''alice@example.org'' ''pw3'' ''Premium'')
       = Inr [St_error ''Username or Email already exists.'']
   \<and> users (snd (signup_page_pg refusing alice_store ''carol'' ''alice@example.org'' ''pw3''
                   ''Premium''))
       = [alice]"
proof -
  have a: "''alice'' \<in> set (map username (users small_store))"
    by (simp add: small_store_def)
  have b: "''alice@example.org'' \<in> set (map email (users alice_store))"
    by (simp add: alice_store_def alice_def)
  have c: "users alice_store = [alice]" by (simp add: alice_store_def)
  show ?thesis
    using signup_duplicate_rejected [of "''alice''" small_store "''other''" "''Premium''"
        alice_store "''alice@example.org''" refusing]
      signup_duplicate_rejected [of "''carol''" small_store "''pw3''" "''Premium''"
        alice_store "''alice@example.org''" refusing]
      a b c by simp
qed

section \<open>Deleting a task (C5)\<close>

text \<open>
  Claim C5. For every existing task id, \<^verbatim>\<open>delete_task\<close> removes exactly one row of the
  tasks table, the row with that id, and touches no user; no listing of the resulting
  store, for any user and any filters, has a row with that id. \<^verbatim>\<open>delete_task\<close> of
  \<^verbatim>\<open>database.py\<close> leaves the same store as the one of \<^verbatim>\<open>final.py\<close>.
\<close>

theorem delete_task_removes_one_row:
  assumes ok: "task_ids_ok db" and t: "t \<in> set (tasks db)" and tid: "task_id t = tid"
  shows "mset (tasks (delete_task db tid)) + {#t#} = mset (tasks db)
    \<and> Suc (length (tasks (delete_task db tid))) = length (tasks db)
    \<and> users (delete_task db tid) = users db
    \<and> tid \<notin> row_id ` set (get_tasks (delete_task db tid) u fb cat)
    \<and> snd (delete_task_pg server dbm tid) = delete_task dbm tid"
proof -
  have d: "distinct (map task_id (tasks db))" using ok by (rule task_ids_distinct)
  have r: "tasks (delete_task db tid) = remove1 t (tasks db)"
    using filter_neq_remove1 [OF d t] tid by (simp add: delete_task_def)
  have 1: "mset (tasks (delete_task db tid)) + {#t#} = mset (tasks db)"
    using t by (simp add: r)
  have "length (tasks db) \<noteq> 0" using t by auto
  then have 2: "Suc (length (tasks (delete_task db tid))) = length (tasks db)"
    using t by (simp add: r length_remove1)
  have 3: "users (delete_task db tid) = users db" by (simp add: delete_task_def)
  have "tid \<notin> task_id ` set (tasks (delete_task db tid))" by (auto simp: delete_task_def)
  then have 4: "tid \<notin> row_id ` set (get_tasks (delete_task db tid) u fb cat)"
    using get_tasks_row_ids [of "delete_task db tid" u fb cat] by blast
  from 1 2 3 4 show ?thesis by (simp add: delete_task_pg_store)
qed

theorem delete_task_removes_one_row_witness:
  "task_ids_ok small_store \<and> blank_task \<in> set (tasks small_store) \<and> task_id blank_task = 2
   \<and> tasks (delete_task small_store 2) = [work_task, other_task]
   \<and> Suc (length (tasks (delete_task small_store 2))) = length (tasks small_store)
   \<and> 2 \<notin> row_id ` set (get_tasks (delete_task small_store 2) 1 None None)"
proof -
  have a: "blank_task \<in> set (tasks small_store)" by (simp add: small_store_def)
  have b: "task_id blank_task = 2" by (simp add: blank_task_def)
  have e: "tasks (delete_task small_store 2) = [work_task, other_task]"
    by (simp add: delete_task_def small_store_def work_task_def blank_task_def other_task_def)
  show ?thesis
    using delete_task_removes_one_row [OF small_store_ids_ok a b, of 1 None None refusing alice_store]
      a b small_store_ids_ok e by blast
qed

section \<open>Signup, then login (C6)\<close>

text \<open>
  Claim C6. For a username (and, in \<^verbatim>\<open>database.py\<close>, an email address) that the store
  does not hold yet, signup succeeds, and a login with the same username and password on
  the resulting store succeeds and puts the new user's id and the user type given at
  signup into the session.
\<close>

theorem signup_then_login:
  "(un \<notin> set (map username (users db)) \<longrightarrow>
      fst (signup_page db un pw ut) = Inr (St_success ''Account created successfully. Please log in.'')
      \<and> login_page (snd (signup_page db un pw ut)) st un pw
          = (St_success (''Welcome, '' @ un @ ''!''),
             st\<lparr>logged_in := True, session_user_id := Some (users_seq db),
                session_user_type := Some ut\<rparr>))
   \<and> (un \<notin> set (map username (users dbm)) \<and> em \<notin> set (map email (users dbm)) \<longrightarrow>
      fst (signup_page_pg server dbm un em pw ut)
        = Inr (send_email server em ''Welcome to Task Manager''
                 ''Your account has been created successfully!''
               @ [St_success ''Account created successfully. Please log in.''])
      \<and> login_page (snd (signup_page_pg server dbm un em pw ut)) st un pw
          = (St_success (''Welcome, '' @ un @ ''!''),
             st\<lparr>logged_in := True, session_user_id := Some (users_seq dbm),
                session_user_type := Some ut\<rparr>))"
proof -
  have 1: "fst (signup_page db un pw ut)
             = Inr (St_success ''Account created successfully. Please log in.'')
      \<and> login_page (snd (signup_page db un pw ut)) st un pw
          = (St_success (''Welcome, '' @ un @ ''!''),
             st\<lparr>logged_in := True, session_user_id := Some (users_seq db),
                session_user_type := Some ut\<rparr>)"
    if f: "un \<notin> set (map username (users db))"
    using f login_after_insert [OF f,
        of "\<lparr>uid = users_seq db, username = un, password = pw, user_type = ut\<rparr>" pw
          "users_seq db + 1" st]
    by (simp add: signup_page_def insert_user_def)
  have 2: "fst (signup_page_pg server dbm un em pw ut)
        = Inr (send_email server em ''Welcome to Task Manager''
                 ''Your account has been created successfully!''
               @ [St_success ''Account created successfully. Please log in.''])
      \<and> login_page (snd (signup_page_pg server dbm un em pw ut)) st un pw
          = (St_success (''Welcome, '' @ un @ ''!''),
             st\<lparr>logged_in := True, session_user_id := Some (users_seq dbm),
                session_user_type := Some ut\<rparr>)"
    if f: "un \<notin> set (map username (users dbm))" and g: "em \<notin> set (map email (users dbm))"
    using f g login_after_insert [OF f,
        of "\<lparr>uid = users_seq dbm, username = un, password = pw, user_type = ut, email = em\<rparr>" pw
          "users_seq dbm + 1" st]
    by (simp add: signup_page_pg_def insert_user_pg_def)
  from 1 2 show ?thesis by blast
qed

theorem signup_then_login_witness:
  "''carol'' \<notin> set (map username (users small_store))
   \<and> login_page (snd (signup_page small_store ''carol'' ''pw3'' ''Restricted'')) logged_out
         ''carol'' ''pw3''
       = (St_success ''Welcome, carol!'',
          \<lparr>logged_in = True, session_user_id = Some 3, session_user_type = Some ''Restricted''\<rparr>)
   \<and> ''carol'' \<notin> set (map username (users alice_store))
   \<and> ''carol@example.org'' \<notin> set (map email (users alice_store))
   \<and> login_page (snd (signup_page_pg refusing alice_store ''carol'' ''carol@example.org'' ''pw3''
                        ''Premium''))
         logged_out ''carol'' ''pw3''
       = (St_success ''Welcome, carol!'',
          \<lparr>logged_in = True, session_user_id = Some 2, session_user_type = Some ''Premium''\<rparr>)"
proof -
  have a: "''carol'' \<notin> set (map username (users small_store))" "users_seq small_store = 3"
    by (simp_all add: small_store_def)
  have b: "''carol'' \<notin> set (map username (users alice_store))"
    "''carol@example.org'' \<notin> set (map email (users alice_store))" "users_seq alice_store = 2"
    by (simp_all add: alice_store_def alice_def)
  show ?thesis
    using signup_then_login [of "''carol''" small_store "''pw3''" "''Restricted''" logged_out
        alice_store "''carol@example.org''" refusing]
      signup_then_login [of "''carol''" small_store "''pw3''" "''Premium''" logged_out
        alice_store "''carol@example.org''" refusing]
      a b by (simp add: logged_out_def)
qed

section \<open>Listings against the contract (C7)\<close>




section \<open>A failed notification (C8)\<close>

text \<open>
  Claim C8. For every function that changes a task and then sends a notification
  (\<^verbatim>\<open>add_task\<close>, \<^verbatim>\<open>update_task_status\<close> and \<^verbatim>\<open>delete_task\<close> of \<^verbatim>\<open>database.py\<close>, the
  "Add Task" tab of \<^verbatim>\<open>with_mail.py\<close>), the store after the call is the same for any two
  behaviours of the mail transport, a failing and a delivering one among them, and it is
  the store with the change committed.
\<close>

theorem notification_failure_keeps_store:
  "snd (add_task_pg server db u ttl descr due cat prio)
     = snd (add_task_pg server' db u ttl descr due cat prio)
   \<and> snd (update_task_status_pg server db tid s) = snd (update_task_status_pg server' db tid s)
   \<and> snd (delete_task_pg server db tid) = snd (delete_task_pg server' db tid)
   \<and> snd (task_dashboard_add_wm server db u em ut ttl descr due cat prio)
     = snd (task_dashboard_add_wm server' db u em ut ttl descr due cat prio)
   \<and> (u \<in> set (map uid (users db)) \<longrightarrow>
        snd (add_task_pg server db u ttl descr due cat prio) = add_task db u ttl descr due cat prio)
   \<and> snd (update_task_status_pg server db tid s) = update_task_status db tid s
   \<and> snd (delete_task_pg server db tid) = delete_task db tid"
  by (simp add: add_task_pg_store update_task_status_pg_store delete_task_pg_store
      task_dashboard_add_wm_store insert_task_pg_def)

theorem notification_failure_keeps_store_witness:
  "1 \<in> set (map uid (users alice_store))
   \<and> fst (add_task_pg refusing alice_store 1 ''t'' '''' ''2024-12-10'' ''Home'' ''Low'')
       = Inr [St_error ''Error sending email: Connection refused'']
   \<and> fst (add_task_pg delivering alice_store 1 ''t'' '''' ''2024-12-10'' ''Home'' ''Low'') = Inr []
   \<and> snd (add_task_pg refusing alice_store 1 ''t'' '''' ''2024-12-10'' ''Home'' ''Low'')
       = snd (add_task_pg delivering alice_store 1 ''t'' '''' ''2024-12-10'' ''Home'' ''Low'')
   \<and> snd (add_task_pg refusing alice_store 1 ''t'' '''' ''2024-12-10'' ''Home'' ''Low'')
       = add_task alice_store 1 ''t'' '''' ''2024-12-10'' ''Home'' ''Low''"
proof -
  have u: "1 \<in> set (map uid (users alice_store))"
    by (simp add: alice_store_def alice_def)
  have e: "select_email (add_task alice_store 1 ''t'' '''' ''2024-12-10'' ''Home'' ''Low'') 1
             = Some ''alice@example.org''"
    by (simp add: select_email_def fetchone_def add_task_def alice_store_def alice_def)
  have r: "fst (add_task_pg refusing alice_store 1 ''t'' '''' ''2024-12-10'' ''Home'' ''Low'')
       = Inr [St_error ''Error sending email: Connection refused'']"
    using u e by (simp add: add_task_pg_def insert_task_pg_def send_email_def refusing_def)
  have d: "fst (add_task_pg delivering alice_store 1 ''t'' '''' ''2024-12-10'' ''Home'' ''Low'')
             = Inr []"
    using u e by (simp add: add_task_pg_def insert_task_pg_def send_email_def delivering_def)
  show ?thesis
    using notification_failure_keeps_store [of refusing alice_store 1 "''t''" "''''"
        "''2024-12-10''" "''Home''" "''Low''" delivering 1 True "''alice@example.org''"
        "''Regular''"]
      u r d by blast
qed

section \<open>The empty string as category (C9)\<close>

text \<open>
  Claim C9. \<^verbatim>\<open>get_tasks\<close> with the empty string as category returns what it returns
  with no category; and with any other category it returns no row whose category is the
  empty string, so such a task is listed only when no category filter is applied.
\<close>

theorem empty_category_is_no_filter:
  "get_tasks db u fb (Some '''') = get_tasks db u fb None
   \<and> (c \<noteq> '''' \<longrightarrow> (\<forall>r\<in>set (get_tasks db u fb (Some c)). row_category r \<noteq> ''''))"
  by (auto simp: get_tasks_empty_category get_tasks_filter row_category_def row_def)

theorem empty_category_is_no_filter_witness:
  "get_tasks small_store 1 None (Some '''') = [row work_task, row blank_task]
   \<and> get_tasks small_store 1 None None = [row work_task, row blank_task]
   \<and> ''Work'' \<noteq> '''' \<and> get_tasks small_store 1 None (Some ''Work'') = [row work_task]
   \<and> row_category (row work_task) \<noteq> '''' \<and> row_category (row blank_task) = ''''"
proof -
  have a: "get_tasks small_store 1 None None = [row work_task, row blank_task]"
    by (simp add: get_tasks_def fetchall_def small_store_def work_task_def blank_task_def
        other_task_def)
  have b: "get_tasks small_store 1 None (Some ''Work'') = [row work_task]"
    by (simp add: get_tasks_def fetchall_def small_store_def work_task_def blank_task_def
        other_task_def)
  have c: "row_category (row work_task) \<noteq> '''' \<and> row_category (row blank_task) = ''''"
    by (simp add: row_category_def row_def work_task_def blank_task_def)
  show ?thesis
    using empty_category_is_no_filter [of small_store 1 None "''Work''"] a b c by simp
qed

section \<open>Operations on one user's tasks and another user's listing (C10)\<close>

text \<open>
  Claim C10. For every user \<open>u\<close>, every row that \<^verbatim>\<open>get_tasks\<close> returns for \<open>u\<close> is the
  row of a task whose \<^verbatim>\<open>user_id\<close> is \<open>u\<close>. For every pair of distinct users \<open>u\<close> and
  \<open>v\<close>, adding a task for \<open>u\<close> (the first one of \<open>u\<close> as well as a later one) leaves the
  listing of \<open>v\<close> as it was; and so does setting the status of, editing or deleting a
  task that \<open>u\<close> owns, in a store whose task ids are unique. All of this holds for every
  status and category filter.
\<close>

theorem other_users_listing_unchanged:
  "(\<forall>r\<in>set (get_tasks db u fb cat). \<exists>x\<in>set (tasks db). user_id x = u \<and> r = row x)
   \<and> (u \<noteq> v \<longrightarrow>
        get_tasks (add_task db u ttl descr due c prio) v fb cat = get_tasks db v fb cat)
   \<and> (u \<noteq> v \<and> task_ids_ok db \<and> t \<in> set (tasks db) \<and> task_id t = tid \<and> user_id t = u \<longrightarrow>
        get_tasks (update_task_status db tid s) v fb cat = get_tasks db v fb cat
        \<and> get_tasks (update_task db tid ttl descr due c prio) v fb cat = get_tasks db v fb cat
        \<and> get_tasks (delete_task db tid) v fb cat = get_tasks db v fb cat)"
proof -
  have 1: "\<forall>r\<in>set (get_tasks db u fb cat). \<exists>x\<in>set (tasks db). user_id x = u \<and> r = row x"
    by (auto simp: get_tasks_filter)
  have 2: "get_tasks (add_task db u ttl descr due c prio) v fb cat = get_tasks db v fb cat"
    if uv: "u \<noteq> v"
    using uv by (simp add: get_tasks_filter add_task_def)
  have 3: "get_tasks (update_task_status db tid s) v fb cat = get_tasks db v fb cat
        \<and> get_tasks (update_task db tid ttl descr due c prio) v fb cat = get_tasks db v fb cat
        \<and> get_tasks (delete_task db tid) v fb cat = get_tasks db v fb cat"
    if uv: "u \<noteq> v" and ok: "task_ids_ok db" and t: "t \<in> set (tasks db)"
      and tid: "task_id t = tid" and own: "user_id t = u"
  proof -
    have o: "\<forall>x\<in>set (tasks db). task_id x = tid \<longrightarrow> user_id x \<noteq> v"
      using ok t tid own uv by (rule owner_of_id)
    have a: "get_tasks (update_task_status db tid s) v fb cat = get_tasks db v fb cat"
    proof -
      have f: "filter (\<lambda>x. user_id x = v \<and> P x)
                 (map (\<lambda>x. if task_id x = tid then x\<lparr>completed := s\<rparr> else x) (tasks db))
               = filter (\<lambda>x. user_id x = v \<and> P x) (tasks db)" for P
        by (rule filter_user_update [OF _ o]) simp
      have m: "tasks (update_task_status db tid s)
               = map (\<lambda>x. if task_id x = tid then x\<lparr>completed := s\<rparr> else x) (tasks db)"
        by (simp add: update_task_status_def)
      show ?thesis by (simp only: get_tasks_filter m f)
    qed
    have b: "get_tasks (update_task db tid ttl descr due c prio) v fb cat = get_tasks db v fb cat"
    proof -
      have f: "filter (\<lambda>x. user_id x = v \<and> P x)
                 (map (\<lambda>x. if task_id x = tid
                            then x\<lparr>title := ttl, description := descr, due_date := due,
                                   category := c, priority := prio\<rparr>
                            else x) (tasks db))
               = filter (\<lambda>x. user_id x = v \<and> P x) (tasks db)" for P
        by (rule filter_user_update [OF _ o]) simp
      have m: "tasks (update_task db tid ttl descr due c prio)
               = map (\<lambda>x. if task_id x = tid
                            then x\<lparr>title := ttl, description := descr, due_date := due,
                                   category := c, priority := prio\<rparr>
                            else x) (tasks db)"
        by (simp add: update_task_def)
      show ?thesis by (simp only: get_tasks_filter m f)
    qed
    have d: "get_tasks (delete_task db tid) v fb cat = get_tasks db v fb cat"
    proof -
      have m: "tasks (delete_task db tid) = filter (\<lambda>x. task_id x \<noteq> tid) (tasks db)"
        by (simp add: delete_task_def)
      show ?thesis by (simp only: get_tasks_filter m filter_user_delete [OF o])
    qed
    from a b d show ?thesis by blast
  qed
  from 1 2 3 show ?thesis by blast
qed

text \<open>
  In the example store: carol (id 3) owns no task, her listing is empty and her first
  task leaves bob's listing alone; alice (id 1) owns task 1, and setting its status,
  editing it or deleting it leaves bob's listing alone as well.
\<close>

theorem other_users_listing_unchanged_witness:
  "get_tasks small_store 3 None None = []
   \<and> get_tasks small_store 1 None None = [row work_task, row blank_task]
   \<and> user_id work_task = 1 \<and> user_id blank_task = 1
   \<and> (3::int) \<noteq> 2
   \<and> get_tasks small_store 2 None None = [row other_task]
   \<and> get_tasks (add_task small_store 3 ''first'' '''' ''2025-01-01'' ''Work'' ''Low'') 2 None None
       = [row other_task]
   \<and> (1::int) \<noteq> 2 \<and> task_ids_ok small_store \<and> work_task \<in> set (tasks small_store)
   \<and> task_id work_task = 1
   \<and> get_tasks (add_task small_store 1 ''new'' '''' ''2025-01-01'' ''Work'' ''Low'') 2 None None
       = [row other_task]
   \<and> get_tasks (update_task_status small_store 1 False) 2 None None = [row other_task]
   \<and> get_tasks (update_task small_store 1 ''new'' '''' ''2025-01-01'' ''Work'' ''Low'') 2 None None
       = [row other_task]
   \<and> get_tasks (delete_task small_store 1) 2 None None = [row other_task]"
proof -
  have a: "work_task \<in> set (tasks small_store)" by (simp add: small_store_def)
  have b: "task_id work_task = 1" "user_id work_task = 1" "user_id blank_task = 1"
    by (simp_all add: work_task_def blank_task_def)
  have n: "(1::int) \<noteq> 2" "(3::int) \<noteq> 2" by simp_all
  have e: "get_tasks small_store 2 None None = [row other_task]"
    by (simp add: get_tasks_def fetchall_def small_store_def work_task_def blank_task_def
        other_task_def)
  have e1: "get_tasks small_store 1 None None = [row work_task, row blank_task]"
    by (simp add: get_tasks_def fetchall_def small_store_def work_task_def blank_task_def
        other_task_def)
  have e3: "get_tasks small_store 3 None None = []"
    by (simp add: get_tasks_def fetchall_def small_store_def work_task_def blank_task_def
        other_task_def)
  show ?thesis
    using other_users_listing_unchanged [of small_store 1 None None 2 "''new''" "''''"
        "''2025-01-01''" "''Work''" "''Low''" work_task 1 False]
      other_users_listing_unchanged [of small_store 3 None None 2 "''first''" "''''"
        "''2025-01-01''" "''Work''" "''Low''" work_task 1 False]
      a b n small_store_ids_ok e e1 e3 by simp
qed

end
